theory Spec2Isabelle
  imports Main "HOL-Library.Sublist" "HOL-Library.AList" "HOL-Library.List_Lexorder"
    "HOL-Library.Char_ord"
begin

section \<open>Python strings\<close>

text \<open>
  A Python \<open>str\<close> is modelled as a \<open>string\<close>: a list of characters, each standing for the
  code point of the same number (0 to 255, the Latin-1 range). In that range the regular
  expression class \<open>\d\<close> matches exactly the ten ASCII digits, and \<open>str.lower\<close> maps
  \<open>A-Z\<close>, \<open>U+00C0-U+00D6\<close> and \<open>U+00D8-U+00DE\<close> to the code point 32 above. Text with
  code points beyond that range is outside this type; the price normalizer is therefore
  given a second time below, over any alphabet and any digit class. The operations on
  sequences (\<open>rfind\<close>, \<open>replace\<close>, \<open>split\<close>) do not depend on the alphabet.
\<close>

definition is_digit :: "char \<Rightarrow> bool" where
  "is_digit c = (c \<in> set ''0123456789'')"

text \<open>\<open>s.rfind(c)\<close>: the index of the last occurrence of \<open>c\<close>, or \<open>-1\<close>.\<close>

fun rfind_from :: "'a \<Rightarrow> 'a list \<Rightarrow> int \<Rightarrow> int \<Rightarrow> int" where
  "rfind_from c [] i r = r"
| "rfind_from c (x # xs) i r = rfind_from c xs (i + 1) (if x = c then i else r)"

definition py_rfind :: "'a list \<Rightarrow> 'a \<Rightarrow> int" where
  "py_rfind s c = rfind_from c s 0 (- 1)"

text \<open>\<open>s.replace(c, r)\<close> for a one-character pattern \<open>c\<close>.\<close>

definition py_replace :: "'a \<Rightarrow> 'a list \<Rightarrow> 'a list \<Rightarrow> 'a list" where
  "py_replace c r s = concat (map (\<lambda>x. if x = c then r else [x]) s)"

text \<open>\<open>s.split(c)\<close> for a one-character separator: always at least one part.\<close>

fun py_split :: "'a \<Rightarrow> 'a list \<Rightarrow> 'a list list" where
  "py_split c [] = [[]]"
| "py_split c (x # xs) =
     (if x = c then [] # py_split c xs
      else (case py_split c xs of
              [] \<Rightarrow> [[x]]
            | p # ps \<Rightarrow> (x # p) # ps))"

section \<open>Normalizer: prices (utils/data_processor.py)\<close>

record price_data =
  price :: string
  price_currency :: string

text \<open>\<open>re.sub(r'[^\d.,]', '', str(price))\<close>: every character that is not a digit, a dot
  or a comma is deleted.\<close>

definition clean_price_chars :: "string \<Rightarrow> string" where
  "clean_price_chars s = filter (\<lambda>c. is_digit c \<or> c = CHR ''.'' \<or> c = CHR '','') s"

definition normalize_price :: "string \<Rightarrow> string \<Rightarrow> price_data" where
  "normalize_price raw currency =
     (if raw = [] then \<lparr>price = [], price_currency = currency\<rparr>
      else
        let clean_price = clean_price_chars raw;
            clean_price =
              (if CHR '','' \<in> set clean_price \<and> CHR ''.'' \<in> set clean_price then
                 (if py_rfind clean_price (CHR '','') > py_rfind clean_price (CHR ''.'')
                  then py_replace (CHR '','') ''.'' (py_replace (CHR ''.'') [] clean_price)
                  else py_replace (CHR '','') [] clean_price)
               else if CHR '','' \<in> set clean_price then
                 (let parts = py_split (CHR '','') clean_price in
                  if length parts = 2 \<and> length (parts ! 1) \<le> 2
                  then py_replace (CHR '','') ''.'' clean_price
                  else py_replace (CHR '','') [] clean_price)
               else clean_price)
        in \<lparr>price = clean_price, price_currency = currency\<rparr>)"

text \<open>The text after the last occurrence of \<open>c\<close> (the whole string when there is none),
  and the replacement of a comma by a dot: the vocabulary of the statements about
  \<open>normalize_price\<close>.\<close>

definition after_last :: "'a \<Rightarrow> 'a list \<Rightarrow> 'a list" where
  "after_last c s = rev (takeWhile (\<lambda>x. x \<noteq> c) (rev s))"

definition comma_to_dot :: "char \<Rightarrow> char" where
  "comma_to_dot x = (if x = CHR '','' then CHR ''.'' else x)"

text \<open>
  The price text of \<open>normalize_price\<close> once more, for text of any alphabet \<open>'c\<close>: a Python
  \<open>str\<close> is a sequence of Unicode code points, and \<open>\d\<close> is the class of all Unicode
  decimal digits. \<open>digit\<close> is that class (a table of the regular-expression library),
  \<open>dot\<close> and \<open>comma\<close> are the two separator characters. The body is that of
  \<open>normalize_price\<close>, line by line.
\<close>

definition normalize_price_text :: "('c \<Rightarrow> bool) \<Rightarrow> 'c \<Rightarrow> 'c \<Rightarrow> 'c list \<Rightarrow> 'c list" where
  "normalize_price_text digit dot comma raw =
     (if raw = [] then []
      else
        let clean_price = filter (\<lambda>c. digit c \<or> c = dot \<or> c = comma) raw;
            clean_price =
              (if comma \<in> set clean_price \<and> dot \<in> set clean_price then
                 (if py_rfind clean_price comma > py_rfind clean_price dot
                  then py_replace comma [dot] (py_replace dot [] clean_price)
                  else py_replace comma [] clean_price)
               else if comma \<in> set clean_price then
                 (let parts = py_split comma clean_price in
                  if length parts = 2 \<and> length (parts ! 1) \<le> 2
                  then py_replace comma [dot] clean_price
                  else py_replace comma [] clean_price)
               else clean_price)
        in clean_price)"

text \<open>
  Unicode text as the list of its code points: the dot is 46, the comma 44. The class
  \<open>\d\<close> stays a parameter; \<open>some_decimal_digits\<close> is the part of it that the examples
  use, the ASCII digits and the Arabic-Indic digits \<open>U+0660-U+0669\<close>.
\<close>

definition normalize_price_unicode :: "(nat \<Rightarrow> bool) \<Rightarrow> nat list \<Rightarrow> nat list" where
  "normalize_price_unicode decimal_digit raw = normalize_price_text decimal_digit 46 44 raw"

definition some_decimal_digits :: "nat \<Rightarrow> bool" where
  "some_decimal_digits n = ((48 \<le> n \<and> n \<le> 57) \<or> (1632 \<le> n \<and> n \<le> 1641))"

section \<open>More of Python's string operations\<close>

text \<open>\<open>str.lower\<close>, character by character.\<close>

definition py_lower_char :: "char \<Rightarrow> char" where
  "py_lower_char c =
     (let n = (of_char c :: nat) in
      if (65 \<le> n \<and> n \<le> 90) \<or> (192 \<le> n \<and> n \<le> 214) \<or> (216 \<le> n \<and> n \<le> 222)
      then char_of (n + 32) else c)"

definition py_lower :: "string \<Rightarrow> string" where
  "py_lower s = map py_lower_char s"

text \<open>
  \<open>str.title\<close>: a character that follows a cased character is lower-cased, any other
  character is title-cased. The title-case forms of \<open>U+00B5\<close>, \<open>U+00DF\<close> and \<open>U+00FF\<close>
  lie outside the modelled range; the model leaves these three characters as they are.
\<close>

definition py_upper_char :: "char \<Rightarrow> char" where
  "py_upper_char c =
     (let n = (of_char c :: nat) in
      if (97 \<le> n \<and> n \<le> 122) \<or> (224 \<le> n \<and> n \<le> 246) \<or> (248 \<le> n \<and> n \<le> 254)
      then char_of (n - 32) else c)"

definition is_cased :: "char \<Rightarrow> bool" where
  "is_cased c =
     (let n = (of_char c :: nat) in
      (65 \<le> n \<and> n \<le> 90) \<or> (97 \<le> n \<and> n \<le> 122) \<or> n = 170 \<or> n = 181 \<or> n = 186 \<or>
      (192 \<le> n \<and> n \<le> 214) \<or> (216 \<le> n \<and> n \<le> 246) \<or> (248 \<le> n \<and> n \<le> 255))"

fun title_from :: "bool \<Rightarrow> string \<Rightarrow> string" where
  "title_from previous_is_cased [] = []"
| "title_from previous_is_cased (c # cs) =
     (if previous_is_cased then py_lower_char c else py_upper_char c) # title_from (is_cased c) cs"

definition py_title :: "string \<Rightarrow> string" where
  "py_title s = title_from False s"

text \<open>White space, as \<open>str.strip\<close> and the class \<open>\s\<close> see it.\<close>

definition is_space :: "char \<Rightarrow> bool" where
  "is_space c =
     (let n = (of_char c :: nat) in
      (9 \<le> n \<and> n \<le> 13) \<or> (28 \<le> n \<and> n \<le> 32) \<or> n = 133 \<or> n = 160)"

definition py_strip :: "string \<Rightarrow> string" where
  "py_strip s = rev (dropWhile is_space (rev (dropWhile is_space s)))"

text \<open>\<open>needle in hay\<close> on strings: \<open>needle\<close> occurs as a contiguous part of \<open>hay\<close>.\<close>

fun py_contains :: "string \<Rightarrow> string \<Rightarrow> bool" where
  "py_contains needle [] = (needle = [])"
| "py_contains needle (x # xs) = (prefix needle (x # xs) \<or> py_contains needle xs)"

section \<open>Raw records\<close>

text \<open>
  A raw record is the dictionary a site scraper hands over. Every key may be absent
  (\<open>None\<close>); a key that is present holds a value of the type the processor's signatures
  give it: text for the scalar fields, a mapping from field names to text for
  \<open>measurement\<close>, a string or a list of strings for the image fields.
\<close>

datatype image_field = Image_Str string | Image_List "string list"

record raw_record =
  raw_product_name :: "string option"
  raw_product_url :: "string option"
  raw_sku_id :: "string option"
  raw_category :: "string option"
  raw_brand :: "string option"
  raw_description :: "string option"
  raw_rating :: "string option"
  raw_price :: "string option"
  raw_price_currency :: "string option"
  raw_original_price :: "string option"
  raw_discount_rate :: "string option"
  raw_measurement :: "(string \<times> string) list option"
  raw_image_urls :: "image_field option"
  raw_image_url :: "image_field option"

text \<open>\<open>d.get(key, default)\<close> for a text field, and the truth value of \<open>d.get(key)\<close>.\<close>

definition get_str :: "string option \<Rightarrow> string \<Rightarrow> string" where
  "get_str v dflt = (case v of None \<Rightarrow> dflt | Some s \<Rightarrow> s)"

definition truthy :: "string option \<Rightarrow> bool" where
  "truthy v = (case v of None \<Rightarrow> False | Some s \<Rightarrow> s \<noteq> [])"

section \<open>Normalizer: availability, brand, measurement, URL\<close>

text \<open>The indicator table, in the order the dictionary literal gives its keys.\<close>

definition availability_indicators :: "(string \<times> string list) list" where
  "availability_indicators =
     [(''in_stock'', [''en stock'', ''disponible'', ''available'', ''in stock'']),
      (''out_of_stock'',
         [''rupture'', ''indisponible'', ''out of stock'', CHR 0xE9 # ''puis'' @ [CHR 0xE9]]),
      (''limited'',
         [''limit'' @ [CHR 0xE9], ''limited'',
          ''derni'' @ [CHR 0xE8] @ ''res pi'' @ [CHR 0xE8] @ ''ces''])]"

fun first_status :: "(string \<times> string list) list \<Rightarrow> string \<Rightarrow> string" where
  "first_status [] text_to_check = ''unknown''"
| "first_status ((status, indicators) # rest) text_to_check =
     (if list_ex (\<lambda>indicator. py_contains indicator text_to_check) indicators then status
      else first_status rest text_to_check)"

definition determine_availability :: "'a raw_record_scheme \<Rightarrow> string" where
  "determine_availability product_data =
     first_status availability_indicators
       (py_lower (get_str (raw_product_name product_data) [] @ '' '' @
                  get_str (raw_description product_data) []))"

text \<open>
  \<open>re.sub(r'^(marque|brand):\s*', '', brand, flags=re.IGNORECASE)\<close>: the pattern is
  anchored at the start, so at most one label is removed, with the white space after it.
\<close>

definition strip_brand_label :: "string \<Rightarrow> string" where
  "strip_brand_label s =
     (if py_lower (take 7 s) = ''marque:'' then dropWhile is_space (drop 7 s)
      else if py_lower (take 6 s) = ''brand:'' then dropWhile is_space (drop 6 s)
      else s)"

definition normalize_brand :: "string \<Rightarrow> string" where
  "normalize_brand brand =
     (if brand = [] then []
      else
        let brand = py_strip (strip_brand_label brand)
        in if brand \<noteq> [] then py_title brand else brand)"

text \<open>\<open>re.search(r'(\d+(?:\.\d+)?)', s)\<close>: the leftmost run of digits, with a decimal part
  when a dot and at least one digit follow it.\<close>

definition first_number :: "string \<Rightarrow> string option" where
  "first_number s =
     (let t = dropWhile (\<lambda>c. \<not> is_digit c) s in
      if t = [] then None
      else
        let whole = takeWhile is_digit t; rest = dropWhile is_digit t in
        (case rest of
           c # r \<Rightarrow>
             if c = CHR ''.'' \<and> takeWhile is_digit r \<noteq> []
             then Some (whole @ ''.'' @ takeWhile is_digit r)
             else Some whole
         | [] \<Rightarrow> Some whole))"

fun measurement_loop ::
  "(string \<times> string) list \<Rightarrow> (string \<times> string) list \<Rightarrow> (string \<times> string) list" where
  "measurement_loop [] normalized = normalized"
| "measurement_loop ((key, v) # items) normalized =
     (if v = [] then measurement_loop items normalized
      else (case first_number v of
              Some number \<Rightarrow> measurement_loop items (AList.update key number normalized)
            | None \<Rightarrow> measurement_loop items normalized))"

definition normalize_measurement ::
  "string \<Rightarrow> (string \<times> string) list \<Rightarrow> (string \<times> string) list" where
  "normalize_measurement measurement_unit m =
     (if m = [] then []
      else
        let normalized = measurement_loop m [] in
        if normalized \<noteq> [] then AList.update ''unit'' measurement_unit normalized
        else normalized)"

text \<open>
  The standard library, as far as the processor calls it: \<open>md5_hexdigest u\<close> stands for
  \<open>hashlib.md5(u.encode()).hexdigest()\<close>, and \<open>urlparse u\<close> for the scheme and the network
  location that \<open>urllib.parse.urlparse\<close> finds in \<open>u\<close>, or \<open>None\<close> when it raises.
\<close>

record stdlib =
  md5_hexdigest :: "string \<Rightarrow> string"
  urlparse :: "string \<Rightarrow> (string \<times> string) option"

definition validate_url :: "stdlib \<Rightarrow> string \<Rightarrow> bool" where
  "validate_url lib url =
     (if url = [] then False
      else (case urlparse lib url of
              None \<Rightarrow> False
            | Some (scheme, netloc) \<Rightarrow> scheme \<noteq> [] \<and> netloc \<noteq> []))"

section \<open>Identity resolver\<close>

definition generate_product_id :: "(string \<Rightarrow> string) \<Rightarrow> string \<Rightarrow> string \<Rightarrow> string \<Rightarrow> string" where
  "generate_product_id hexdigest supplier_name url sku =
     (if sku \<noteq> [] then supplier_name @ ''_'' @ sku
      else
        let url_hash = take 8 (hexdigest url)
        in supplier_name @ ''_'' @ url_hash)"

section \<open>Product processor\<close>

text \<open>
  The processed product: the dictionary \<open>process_product\<close> builds. The two price keys come
  from \<open>normalize_price\<close> (\<open>processed.update(price_data)\<close>), so the product extends that
  record. The key \<open>id\<close> is the field \<open>product_id\<close>. \<open>original_price\<close> and \<open>discount_rate\<close>
  are present only when the raw record has a non-empty value for them.
\<close>

record product_metadata =
  scraped_at :: string
  supplier_id :: string
  data_version :: string

record product = price_data +
  product_id :: string
  supplier :: string
  category :: string
  product_name :: string
  brand :: string
  product_url :: string
  sku_id :: string
  description :: string
  rating :: string
  timestamp :: string
  original_price :: "string option"
  discount_rate :: "string option"
  measurement :: "(string \<times> string) list"
  image_urls :: "string list"
  availability :: string
  metadata :: product_metadata

text \<open>The processor object: the three entries of the configuration that it reads.\<close>

record data_processor =
  default_price_currency :: string
  measurement_unit :: string
  remove_duplicates_enabled :: bool

text \<open>
  \<open>product_data.get("image_urls", []) or product_data.get("image_url", [])\<close>, with a single
  string wrapped into a list.
\<close>

definition image_truthy :: "image_field \<Rightarrow> bool" where
  "image_truthy v = (case v of Image_Str s \<Rightarrow> s \<noteq> [] | Image_List l \<Rightarrow> l \<noteq> [])"

definition get_image :: "image_field option \<Rightarrow> image_field" where
  "get_image v = (case v of None \<Rightarrow> Image_List [] | Some i \<Rightarrow> i)"

definition raw_images :: "'a raw_record_scheme \<Rightarrow> string list" where
  "raw_images product_data =
     (let first = get_image (raw_image_urls product_data);
          chosen = (if image_truthy first then first else get_image (raw_image_url product_data))
      in case chosen of Image_Str s \<Rightarrow> [s] | Image_List l \<Rightarrow> l)"

fun valid_images_loop :: "stdlib \<Rightarrow> string list \<Rightarrow> string set \<Rightarrow> string list \<Rightarrow> string list" where
  "valid_images_loop lib [] seen_images valid_images = valid_images"
| "valid_images_loop lib (img_url # rest) seen_images valid_images =
     (if img_url \<noteq> [] \<and> validate_url lib img_url \<and> img_url \<notin> seen_images
      then valid_images_loop lib rest (insert img_url seen_images) (valid_images @ [img_url])
      else valid_images_loop lib rest seen_images valid_images)"

text \<open>\<open>now\<close> is the value of \<open>datetime.utcnow().isoformat()\<close> at the call.\<close>

definition process_product ::
  "stdlib \<Rightarrow> data_processor \<Rightarrow> string \<Rightarrow> 'a raw_record_scheme \<Rightarrow> string \<Rightarrow> product" where
  "process_product lib dp now product_data supplier_name =
     (let ident = generate_product_id (md5_hexdigest lib) supplier_name
                    (get_str (raw_product_url product_data) [])
                    (get_str (raw_sku_id product_data) []);
          stamp = now @ ''Z'';
          currency = get_str (raw_price_currency product_data) (default_price_currency dp);
          price_data = normalize_price (get_str (raw_price product_data) []) currency
      in \<lparr> price = price price_data,
           price_currency = price_currency price_data,
           product_id = ident,
           supplier = supplier_name,
           category = get_str (raw_category product_data) [],
           product_name = get_str (raw_product_name product_data) [],
           brand = normalize_brand (get_str (raw_brand product_data) []),
           product_url = get_str (raw_product_url product_data) [],
           sku_id = get_str (raw_sku_id product_data) [],
           description = get_str (raw_description product_data) [],
           rating = get_str (raw_rating product_data) [],
           timestamp = stamp,
           original_price =
             (if truthy (raw_original_price product_data)
              then Some (price (normalize_price (get_str (raw_original_price product_data) [])
                                  currency))
              else None),
           discount_rate =
             (if truthy (raw_discount_rate product_data) then raw_discount_rate product_data
              else None),
           measurement =
             normalize_measurement (measurement_unit dp)
               (case raw_measurement product_data of None \<Rightarrow> [] | Some m \<Rightarrow> m),
           image_urls = valid_images_loop lib (raw_images product_data) {} [],
           availability = determine_availability product_data,
           metadata = \<lparr> scraped_at = stamp,
                        supplier_id = supplier_name @ ''_'' @ ident,
                        data_version = ''1.0'' \<rparr> \<rparr>)"

text \<open>\<open>validate_product\<close>: the loop over the three required keys.\<close>

definition validate_product :: "product \<Rightarrow> bool" where
  "validate_product p = list_all (\<lambda>field. field p \<noteq> []) [product_name, product_url, price]"

section \<open>Deduplicator\<close>

text \<open>
  The loop of \<open>remove_duplicates\<close>, over any kind of dictionary: \<open>key\<close> computes the
  formatted string \<open>f"{product.get('product_url', '')}_{product.get('product_name', '')}"\<close>.
\<close>

fun remove_duplicates_loop :: "('a \<Rightarrow> string) \<Rightarrow> 'a list \<Rightarrow> string set \<Rightarrow> 'a list \<Rightarrow> 'a list" where
  "remove_duplicates_loop key [] seen_products unique_products = unique_products"
| "remove_duplicates_loop key (p # ps) seen_products unique_products =
     (let product_key = key p in
      if product_key \<notin> seen_products
      then remove_duplicates_loop key ps (insert product_key seen_products)
             (unique_products @ [p])
      else remove_duplicates_loop key ps seen_products unique_products)"

definition product_key :: "product \<Rightarrow> string" where
  "product_key p = product_url p @ ''_'' @ product_name p"

definition remove_duplicates :: "product list \<Rightarrow> product list" where
  "remove_duplicates products = remove_duplicates_loop product_key products {} []"

section \<open>Batch processing\<close>

text \<open>
  The elements of a batch are dictionaries of type \<open>Dict[str, Any]\<close>. A dictionary whose
  values have the types above is a raw record, and on it no step of \<open>process_product\<close>
  raises. On a dictionary with a value of another type \<open>process_product\<close> may raise: an
  \<open>AttributeError\<close> for a \<open>product_url\<close> that is \<open>None\<close> when there is no SKU, a
  \<open>TypeError\<close> for a \<open>brand\<close> that is a number. Of such a dictionary the model keeps what
  the two handlers read: \<open>product.get('name', 'Unknown')\<close>,
  \<open>product.get('product_name', 'Unknown')\<close> and the text of the exception, in this order.
  A dictionary with a value of another type on which nothing raises is outside the model.
\<close>

datatype 'a raw_dict = Well_Typed "'a raw_record_scheme" | Raising string string string

text \<open>
  \<open>process_products_batch\<close>. \<open>clock i\<close> is the clock reading while element \<open>i\<close> is
  processed. The function returns the list; its only other effect is the line that the
  \<open>except\<close> branch prints, so the model returns the list and the printed lines. It has no
  access to the run's statistics.
\<close>

fun batch_loop ::
  "stdlib \<Rightarrow> data_processor \<Rightarrow> (nat \<Rightarrow> string) \<Rightarrow> string \<Rightarrow> nat \<Rightarrow> 'a raw_dict list
     \<Rightarrow> product list \<Rightarrow> string list \<Rightarrow> product list \<times> string list" where
  "batch_loop lib dp clock supplier_name i [] processed_products printed =
     (processed_products, printed)"
| "batch_loop lib dp clock supplier_name i (Well_Typed r # rest) processed_products printed =
     (let processed_product = process_product lib dp (clock i) r supplier_name in
      batch_loop lib dp clock supplier_name (Suc i) rest
        (if validate_product processed_product then processed_products @ [processed_product]
         else processed_products)
        printed)"
| "batch_loop lib dp clock supplier_name i (Raising name_value product_name_value e # rest)
     processed_products printed =
     batch_loop lib dp clock supplier_name (Suc i) rest processed_products
       (printed @ [''Error processing product '' @ product_name_value @ '': '' @ e])"

definition process_products_batch ::
  "stdlib \<Rightarrow> data_processor \<Rightarrow> (nat \<Rightarrow> string) \<Rightarrow> 'a raw_dict list \<Rightarrow> string
     \<Rightarrow> product list \<times> string list" where
  "process_products_batch lib dp clock products supplier_name =
     (case batch_loop lib dp clock supplier_name 0 products [] [] of
        (processed_products, printed) \<Rightarrow>
          (if remove_duplicates_enabled dp then remove_duplicates processed_products
           else processed_products,
           printed))"

section \<open>Orchestrator: structuring a scraper's output (scraper.py)\<close>

text \<open>
  The run's statistics hold the error list; \<open>_process_scraper_output\<close> touches no other
  entry, so the statistics are any record that extends \<open>scrape_stats\<close>. The list
  \<open>scraper.all_products\<close> carries no type annotation: an element is a dictionary, or a value
  without a \<open>get\<close> method. On such a value \<open>process_product\<close> raises, and then the handler
  raises too when it formats \<open>product.get('name', 'Unknown')\<close>; the model keeps the text of
  that second exception, which the outer \<open>except\<close> catches.
\<close>

datatype 'a scraped_item = Dict "'a raw_dict" | Not_A_Dict string

record error_entry =
  error_supplier :: string
  error_product :: "string option"
  error_text :: string

record scrape_stats =
  errors :: "error_entry list"

record price_info =
  amount :: string
  currency :: string
  price_unit :: string

record 'a structured_product =
  structured_id :: string
  structured_name :: string
  structured_category :: string
  structured_supplier :: string
  structured_price :: price_info
  structured_url :: string
  structured_brand :: string
  structured_measurements :: "(string \<times> string) list"
  structured_availability :: string
  structured_image_url :: "string list"
  structured_scraped_at :: string
  raw_data :: "'a raw_record_scheme"

definition structure_product ::
  "stdlib \<Rightarrow> data_processor \<Rightarrow> string \<Rightarrow> 'a raw_record_scheme \<Rightarrow> string
     \<Rightarrow> 'a structured_product" where
  "structure_product lib dp now r supplier_name =
     (let processed_product = process_product lib dp now r supplier_name in
      \<lparr> structured_id = product_id processed_product,
        structured_name = product_name processed_product,
        structured_category = category processed_product,
        structured_supplier = py_title supplier_name,
        structured_price = \<lparr> amount = price processed_product,
                             currency = price_currency processed_product,
                             price_unit = ''piece'' \<rparr>,
        structured_url = product_url processed_product,
        structured_brand = brand processed_product,
        structured_measurements = measurement processed_product,
        structured_availability = availability processed_product,
        structured_image_url = image_urls processed_product,
        structured_scraped_at = timestamp processed_product,
        raw_data = r \<rparr>)"

text \<open>
  A structured product has neither a \<open>product_url\<close> nor a \<open>product_name\<close> key, so both
  \<open>get\<close> calls of \<open>remove_duplicates\<close> return their default, the empty string.
\<close>

definition structured_key :: "'a structured_product \<Rightarrow> string" where
  "structured_key p = [] @ ''_'' @ []"

text \<open>
  The loop over the raw products, with the inner \<open>try\<close>: a dictionary on which processing
  raises adds an entry with the supplier, the product and the error to the error list, and
  the loop goes on; an exception that leaves the handler ends the loop.
\<close>

fun structure_loop ::
  "stdlib \<Rightarrow> data_processor \<Rightarrow> (nat \<Rightarrow> string) \<Rightarrow> string \<Rightarrow> nat \<Rightarrow> 'a scraped_item list
     \<Rightarrow> 'a structured_product list \<Rightarrow> error_entry list
     \<Rightarrow> (string + 'a structured_product list) \<times> error_entry list" where
  "structure_loop lib dp clock supplier_name i [] structured_products errs =
     (Inr structured_products, errs)"
| "structure_loop lib dp clock supplier_name i (Dict (Well_Typed r) # rest)
     structured_products errs =
     structure_loop lib dp clock supplier_name (Suc i) rest
       (structured_products @ [structure_product lib dp (clock i) r supplier_name]) errs"
| "structure_loop lib dp clock supplier_name i
     (Dict (Raising name_value product_name_value e) # rest) structured_products errs =
     structure_loop lib dp clock supplier_name (Suc i) rest structured_products
       (errs @ [\<lparr> error_supplier = supplier_name, error_product = Some name_value,
                  error_text = e \<rparr>])"
| "structure_loop lib dp clock supplier_name i (Not_A_Dict e # rest) structured_products errs =
     (Inl e, errs)"

text \<open>
  \<open>_process_scraper_output\<close>, with the outer \<open>try\<close>: an exception that reaches it adds an
  entry with the supplier and the error, and the result is the empty list.
\<close>

definition process_scraper_output ::
  "stdlib \<Rightarrow> data_processor \<Rightarrow> (nat \<Rightarrow> string) \<Rightarrow> 's scrape_stats_scheme
     \<Rightarrow> 'a scraped_item list \<Rightarrow> string
     \<Rightarrow> 'a structured_product list \<times> 's scrape_stats_scheme" where
  "process_scraper_output lib dp clock stats raw_products supplier_name =
     (if raw_products = [] then ([], stats)
      else
        (case structure_loop lib dp clock supplier_name 0 raw_products [] (errors stats) of
           (Inr structured_products, errs) \<Rightarrow>
             (remove_duplicates_loop structured_key structured_products {} [],
              stats \<lparr> errors := errs \<rparr>)
         | (Inl e, errs) \<Rightarrow>
             ([], stats \<lparr> errors := errs @ [\<lparr> error_supplier = supplier_name,
                                               error_product = None, error_text = e \<rparr>] \<rparr>)))"

section \<open>Query service (api/server.py)\<close>

text \<open>\<open>xs[start:stop]\<close> with Python's treatment of negative and too large indices.\<close>

definition slice_index :: "int \<Rightarrow> nat \<Rightarrow> nat" where
  "slice_index i n = (if i < 0 then nat (max 0 (i + int n)) else min (nat i) n)"

definition py_slice :: "'a list \<Rightarrow> int \<Rightarrow> int \<Rightarrow> 'a list" where
  "py_slice xs start stop =
     (let lo = slice_index start (length xs); hi = slice_index stop (length xs)
      in take (hi - lo) (drop lo xs))"

datatype http_exception = HTTPException nat string

text \<open>
  \<open>get_materials_by_category\<close>, on the product list that \<open>_load_products\<close> returned. The
  optional \<open>supplier\<close> query parameter is \<open>None\<close> when it is not given.
\<close>

definition get_materials_by_category ::
  "product list \<Rightarrow> string \<Rightarrow> string option \<Rightarrow> int \<Rightarrow> int \<Rightarrow> http_exception + product list" where
  "get_materials_by_category loaded cat supplier_filter limit offset =
     (let products = filter (\<lambda>p. category p = cat) loaded;
          products = (if truthy supplier_filter
                      then filter (\<lambda>p. Some (supplier p) = supplier_filter) products
                      else products);
          products = py_slice products offset (offset + limit)
      in if products = []
         then Inl (HTTPException 404 (''No products found for category: '' @ cat))
         else Inr products)"

text \<open>The sibling route \<open>get_materials\<close>, which returns whatever the filters leave.\<close>

definition get_materials ::
  "product list \<Rightarrow> string option \<Rightarrow> string option \<Rightarrow> int \<Rightarrow> int \<Rightarrow> product list" where
  "get_materials loaded supplier_filter category_filter limit offset =
     (let products = loaded;
          products = (if truthy supplier_filter
                      then filter (\<lambda>p. Some (supplier p) = supplier_filter) products
                      else products);
          products = (if truthy category_filter
                      then filter (\<lambda>p. Some (category p) = category_filter) products
                      else products)
      in py_slice products offset (offset + limit))"

section \<open>Session aggregator (utils/logger.py)\<close>

text \<open>
  The products that a scraper appends to its session files are dictionaries whose values
  are text, lists of text, or nested dictionaries of text (the price and the measurement of
  a scraped product are such dictionaries).
\<close>

datatype field_value = Scalar string | Sequence "string list" | Mapping "(string \<times> string) list"

type_synonym saved_product = "(string \<times> field_value) list"

text \<open>
  The session's JSON file is a document with the keys \<open>metadata\<close> and \<open>products\<close>. The text
  of a file on disk is the complete text of a document, a proper part of such a text (what
  a writer that stopped early leaves behind), or nothing at all. \<open>json.load\<close> parses a
  complete text only: on an empty or cut text it raises. The session's CSV file is a list
  of rows of cells, the header row first.
\<close>

record session_metadata =
  scraper :: string
  session_id :: string
  session_scraped_at :: string
  total_products :: nat
  file_version :: string
  last_updated :: "string option"

record session_data =
  session_metadata :: session_metadata
  session_products :: "saved_product list"

datatype json_text = Empty_Text | Partial_Text session_data | Json_Text session_data

record disk =
  json_files :: "string \<rightharpoonup> json_text"
  csv_files :: "string \<rightharpoonup> string list list"

definition json_load :: "json_text option \<Rightarrow> session_data option" where
  "json_load f = (case f of Some (Json_Text d) \<Rightarrow> Some d | _ \<Rightarrow> None)"

definition session_json_path :: "string \<Rightarrow> string \<Rightarrow> string \<Rightarrow> string" where
  "session_json_path data_dir scraper_name sid =
     data_dir @ ''/'' @ scraper_name @ ''_products_'' @ sid @ ''.json''"

definition session_csv_path :: "string \<Rightarrow> string \<Rightarrow> string \<Rightarrow> string" where
  "session_csv_path data_dir scraper_name sid =
     data_dir @ ''/'' @ scraper_name @ ''_products_'' @ sid @ ''.csv''"

text \<open>\<open>data["products"].extend(products)\<close> and the two metadata assignments.\<close>

definition extend_session :: "string \<Rightarrow> session_data \<Rightarrow> saved_product list \<Rightarrow> session_data" where
  "extend_session now data batch =
     (let all_products = session_products data @ batch in
      \<lparr> session_metadata =
          (session_metadata data)
            \<lparr> total_products := length all_products, last_updated := Some now \<rparr>,
        session_products = all_products \<rparr>)"

text \<open>
  The CSV half. The field names are the keys of the new products and the header of the
  existing file, sorted. A product becomes a row dictionary: a nested dictionary is
  flattened into \<open>key_nestedkey\<close> entries, a list is joined with \<open>"; "\<close>.
  \<open>DictWriter.writerow\<close> raises when the row has a key that is not a field name, and
  otherwise appends the cells in the order of the field names, with the empty string for a
  missing key. The rows written before a failing one stay in the file.
\<close>

fun py_join :: "string \<Rightarrow> string list \<Rightarrow> string" where
  "py_join sep [] = []"
| "py_join sep [x] = x"
| "py_join sep (x # y # ys) = x @ sep @ py_join sep (y # ys)"

fun flatten_items :: "saved_product \<Rightarrow> (string \<times> string) list \<Rightarrow> (string \<times> string) list" where
  "flatten_items [] row = row"
| "flatten_items ((key, Mapping nested) # rest) row =
     flatten_items rest
       (foldl (\<lambda>row (nested_key, nested_value).
                 AList.update (key @ ''_'' @ nested_key) nested_value row) row nested)"
| "flatten_items ((key, Sequence items) # rest) row =
     flatten_items rest (AList.update key (py_join ''; '' items) row)"
| "flatten_items ((key, Scalar v) # rest) row = flatten_items rest (AList.update key v row)"

definition csv_row :: "saved_product \<Rightarrow> (string \<times> string) list" where
  "csv_row p = flatten_items p []"

definition csv_fieldnames :: "saved_product list \<Rightarrow> string list list option \<Rightarrow> string list" where
  "csv_fieldnames products existing =
     sort (remdups (concat (map (map fst) products) @
                    (case existing of
                       None \<Rightarrow> []
                     | Some rows \<Rightarrow> (case rows of [] \<Rightarrow> [] | header # _ \<Rightarrow> header))))"

definition row_fits :: "string list \<Rightarrow> saved_product \<Rightarrow> bool" where
  "row_fits fieldnames p = list_all (\<lambda>key. key \<in> set fieldnames) (map fst (csv_row p))"

text \<open>The loop of \<open>writerow\<close> calls: whether one of them raised, and the rows of the file
  after each call that did not.\<close>

fun csv_write_rows ::
  "string list \<Rightarrow> saved_product list \<Rightarrow> string list list \<Rightarrow> bool \<times> string list list list" where
  "csv_write_rows fieldnames [] rows = (False, [])"
| "csv_write_rows fieldnames (p # ps) rows =
     (if \<not> row_fits fieldnames p then (True, [])
      else
        let cells = map (\<lambda>field. case map_of (csv_row p) field of
                                   None \<Rightarrow> [] | Some v \<Rightarrow> v) fieldnames;
            rows = rows @ [cells]
        in (case csv_write_rows fieldnames ps rows of
              (raised, later) \<Rightarrow> (raised, rows # later)))"

text \<open>
  \<open>append_products_to_session\<close>, as the sequence of disks that are visible while it runs.
  An empty batch returns at once. Otherwise the JSON file is read and parsed (a missing or
  unreadable file raises, and nothing is written); then \<open>open(json_filepath, 'w')\<close>
  truncates the file, \<open>json.dump\<close> writes the new text piece by piece, and the file is
  closed. Then the CSV file is opened for appending, which creates it when it is missing,
  and the rows are written one by one. \<open>now\<close> is \<open>datetime.now().isoformat()\<close>.
\<close>

definition append_states ::
  "string \<Rightarrow> string \<Rightarrow> disk \<Rightarrow> string \<Rightarrow> saved_product list \<Rightarrow> string \<Rightarrow> disk list" where
  "append_states data_dir now d scraper_name batch sid =
     (if batch = [] then [d]
      else
        let json_filepath = session_json_path data_dir scraper_name sid;
            csv_filepath = session_csv_path data_dir scraper_name sid in
        (case json_load (json_files d json_filepath) of
           None \<Rightarrow> [d]
         | Some data \<Rightarrow>
             let data = extend_session now data batch;
                 written = d \<lparr> json_files := (json_files d)(json_filepath \<mapsto> Json_Text data) \<rparr>;
                 fieldnames = csv_fieldnames batch (csv_files d csv_filepath);
                 rows = (case csv_files d csv_filepath of None \<Rightarrow> [] | Some rows \<Rightarrow> rows)
             in [d,
                 d \<lparr> json_files := (json_files d)(json_filepath \<mapsto> Empty_Text) \<rparr>,
                 d \<lparr> json_files := (json_files d)(json_filepath \<mapsto> Partial_Text data) \<rparr>,
                 written] @
                map (\<lambda>rows. written \<lparr> csv_files := (csv_files d)(csv_filepath \<mapsto> rows) \<rparr>)
                  (rows # snd (csv_write_rows fieldnames batch rows))))"

text \<open>
  The outcome of a call that runs to its end: the exception it raises, if any (the model
  keeps the path of its message), and the disk it leaves. The exception of the CSV half is
  raised after the JSON file has been rewritten.
\<close>

datatype session_exception = Failed_To_Append_Json string | Failed_To_Append_Csv string

record append_outcome =
  raised :: "session_exception option"
  disk_after :: disk

definition append_products_to_session ::
  "string \<Rightarrow> string \<Rightarrow> disk \<Rightarrow> string \<Rightarrow> saved_product list \<Rightarrow> string \<Rightarrow> append_outcome" where
  "append_products_to_session data_dir now d scraper_name batch sid =
     (if batch = [] then \<lparr> raised = None, disk_after = d \<rparr>
      else
        let json_filepath = session_json_path data_dir scraper_name sid;
            csv_filepath = session_csv_path data_dir scraper_name sid in
        (case json_load (json_files d json_filepath) of
           None \<Rightarrow> \<lparr> raised = Some (Failed_To_Append_Json json_filepath), disk_after = d \<rparr>
         | Some data \<Rightarrow>
             let fieldnames = csv_fieldnames batch (csv_files d csv_filepath);
                 rows = (case csv_files d csv_filepath of None \<Rightarrow> [] | Some rows \<Rightarrow> rows)
             in \<lparr> raised = (if fst (csv_write_rows fieldnames batch rows)
                            then Some (Failed_To_Append_Csv csv_filepath) else None),
                  disk_after = last (append_states data_dir now d scraper_name batch sid) \<rparr>))"

text \<open>What a crash leaves: the call may stop after any number of its steps.\<close>

definition crash_states ::
  "string \<Rightarrow> string \<Rightarrow> disk \<Rightarrow> string \<Rightarrow> saved_product list \<Rightarrow> string \<Rightarrow> disk list" where
  "crash_states data_dir now d scraper_name batch sid =
     butlast (append_states data_dir now d scraper_name batch sid)"

section \<open>Example data\<close>

text \<open>
  The processor with an empty configuration (currency \<open>EUR\<close>, unit \<open>cm\<close>, duplicates
  removed), and an excerpt of the standard library: the MD5 digest of the empty string and
  the parts of one image URL. The examples below consult the library at these inputs only.
\<close>

definition example_processor :: data_processor where
  "example_processor =
     \<lparr> default_price_currency = ''EUR'', measurement_unit = ''cm'',
       remove_duplicates_enabled = True \<rparr>"

definition example_md5 :: "string \<Rightarrow> string" where
  "example_md5 u = (if u = [] then ''d41d8cd98f00b204e9800998ecf8427e'' else [])"

definition example_urlparse :: "string \<Rightarrow> (string \<times> string) option" where
  "example_urlparse u =
     (if u = ''https://www.castorama.fr/img/1.jpg'' then Some (''https'', ''www.castorama.fr'')
      else None)"

definition example_stdlib :: stdlib where
  "example_stdlib = \<lparr> md5_hexdigest = example_md5, urlparse = example_urlparse \<rparr>"

definition example_clock :: "nat \<Rightarrow> string" where
  "example_clock i = ''2024-01-01T00:00:00''"

text \<open>Raw records: one with every required field; one without a product name, one without
  a URL and one without a price in its price text; and one whose name says that the product
  is unavailable.\<close>

definition raw_paint :: raw_record where
  "raw_paint =
     \<lparr> raw_product_name = Some ''Peinture blanche 10L'',
       raw_product_url = Some ''https://www.castorama.fr/p/100'',
       raw_sku_id = Some ''100'', raw_category = Some ''Peinture'',
       raw_brand = Some ''N/A'', raw_description = Some ''Peinture mate'',
       raw_rating = Some ''4.5'', raw_price = Some ''25,99 EUR'',
       raw_price_currency = None, raw_original_price = None, raw_discount_rate = None,
       raw_measurement = None, raw_image_urls = None, raw_image_url = None \<rparr>"

definition raw_nameless :: raw_record where
  "raw_nameless = raw_paint \<lparr> raw_product_name := None, raw_sku_id := Some ''101'',
     raw_product_url := Some ''https://www.castorama.fr/p/101'' \<rparr>"

definition raw_urlless :: raw_record where
  "raw_urlless = raw_paint \<lparr> raw_product_url := None, raw_sku_id := Some ''102'' \<rparr>"

definition raw_priceless :: raw_record where
  "raw_priceless = raw_paint \<lparr> raw_price := Some ''Sur demande'', raw_sku_id := Some ''103'',
     raw_product_url := Some ''https://www.castorama.fr/p/103'' \<rparr>"

text \<open>A dictionary \<open>{'product_name': 'Lavabo', 'brand': 5}\<close>: \<open>re.sub\<close> raises a
  \<open>TypeError\<close> on the number.\<close>

definition raw_number_brand :: "unit raw_dict" where
  "raw_number_brand = Raising ''Unknown'' ''Lavabo'' ''expected string or bytes-like object''"

definition raw_unavailable :: raw_record where
  "raw_unavailable = raw_paint \<lparr> raw_product_name := Some ''Robinet INDISPONIBLE'' \<rparr>"

text \<open>A product dictionary with the two keys the deduplicator reads, as in the repository's
  test of \<open>remove_duplicates\<close>, and with a category and a supplier for the query service;
  every other text field is empty.\<close>

definition bare_product :: "string \<Rightarrow> string \<Rightarrow> string \<Rightarrow> string \<Rightarrow> product" where
  "bare_product name url cat sup_name =
     \<lparr> price = [], price_currency = [], product_id = [], supplier = sup_name, category = cat,
       product_name = name, brand = [], product_url = url, sku_id = [], description = [],
       rating = [], timestamp = [], original_price = None, discount_rate = None,
       measurement = [], image_urls = [], availability = [],
       metadata = \<lparr> scraped_at = [], supplier_id = [], data_version = [] \<rparr> \<rparr>"

text \<open>A persisted dataset of one product.\<close>

definition example_dataset :: "product list" where
  "example_dataset =
     [bare_product ''Peinture blanche 10L'' ''https://www.castorama.fr/p/100'' ''Peinture''
        ''castorama'']"

text \<open>
  Two scraped products as the scrapers save them, with the price as a nested dictionary; a
  session whose JSON file holds the first, and whose CSV file holds the header that
  \<open>initialize_session_files\<close> writes.
\<close>

definition saved_paint :: saved_product where
  "saved_paint =
     [(''product_name'', Scalar ''Peinture blanche 10L''),
      (''category'', Scalar ''Peinture''),
      (''price'', Mapping [(''price'', ''25.99''), (''original_price'', ''29.99'')]),
      (''image_url'', Sequence [''https://www.castorama.fr/img/1.jpg''])]"

definition saved_lavabo :: saved_product where
  "saved_lavabo =
     [(''product_name'', Scalar ''Lavabo''),
      (''category'', Scalar ''Lavabos''),
      (''price'', Mapping [(''price'', ''59.90'')]),
      (''image_url'', Sequence [])]"

definition example_session :: session_data where
  "example_session =
     \<lparr> session_metadata =
         \<lparr> scraper = ''castorama'', session_id = ''20240101_000000'',
           session_scraped_at = ''2024-01-01T00:00:00'', total_products = 1,
           file_version = ''1.0'', last_updated = None \<rparr>,
       session_products = [saved_paint] \<rparr>"

definition example_json_path :: string where
  "example_json_path = session_json_path ''output/data'' ''castorama'' ''20240101_000000''"

definition example_csv_path :: string where
  "example_csv_path = session_csv_path ''output/data'' ''castorama'' ''20240101_000000''"

definition example_header :: "string list" where
  "example_header =
     [''sku_id'', ''product_name'', ''category'', ''price'', ''price_currency'',
      ''product_url'', ''brand'', ''measurement'', ''image_url'', ''rating'',
      ''description'', ''initial_price'', ''discount_rate'', ''original_price'',
      ''price_m'', ''url_path'', ''image_urls'']"

definition example_disk :: disk where
  "example_disk =
     \<lparr> json_files = Map.empty (example_json_path \<mapsto> Json_Text example_session),
       csv_files = Map.empty (example_csv_path \<mapsto> [example_header]) \<rparr>"


section \<open>Properties of the price normalizer\<close>

lemma normalize_price_test_table:
  "price (normalize_price ''25,99 '' ''EUR'') = ''25.99''"
  "price (normalize_price ''15.50 EUR'' ''EUR'') = ''15.50''"
  "price (normalize_price ''Invalid'' ''EUR'') = ''''"
  "price (normalize_price ''1.234,56'' ''EUR'') = ''1234.56''"
  "price (normalize_price ''1,234.56'' ''EUR'') = ''1234.56''"
  by (simp_all add: normalize_price_def clean_price_chars_def is_digit_def py_rfind_def
        py_replace_def Let_def)

lemma takeWhile_rev_notin:
  "c \<notin> set xs \<Longrightarrow> takeWhile (\<lambda>x. x \<noteq> c) (rev xs) = rev xs"
  by (auto simp: takeWhile_eq_all_conv)

lemma after_last_notin: "c \<notin> set xs \<Longrightarrow> after_last c xs = xs"
  unfolding after_last_def by (subst takeWhile_rev_notin) simp_all

lemma after_last_Cons:
  "after_last c (x # xs) = (if x = c \<or> c \<in> set xs then after_last c xs else x # xs)"
proof (cases "c \<in> set xs")
  case True
  then show ?thesis by (auto simp: after_last_def takeWhile_append)
next
  case False
  have "after_last c (x # xs) = (if x = c then xs else x # xs)"
    unfolding after_last_def using False
    by (simp add: takeWhile_append takeWhile_rev_notin del: takeWhile_eq_all_conv)
  with False show ?thesis by (simp add: after_last_notin)
qed

lemma set_after_last: "set (after_last c s) \<subseteq> set s"
  unfolding after_last_def using set_takeWhileD [of _ "\<lambda>x. x \<noteq> c" "rev s"] by auto

lemma py_replace_del: "py_replace c [] s = filter (\<lambda>x. x \<noteq> c) s"
  by (induction s) (auto simp: py_replace_def)

lemma py_replace_one: "py_replace c [d] s = map (\<lambda>x. if x = c then d else x) s"
  by (induction s) (auto simp: py_replace_def)

lemma rfind_from_notin: "c \<notin> set xs \<Longrightarrow> rfind_from c xs i r = r"
  by (induction xs arbitrary: i r) auto

lemma rfind_from_lower: "c \<in> set xs \<Longrightarrow> i \<le> rfind_from c xs i r"
proof (induction xs arbitrary: i r)
  case Nil
  then show ?case by simp
next
  case (Cons x xs)
  show ?case
  proof (cases "c \<in> set xs")
    case True
    have "i + 1 \<le> rfind_from c xs (i + 1) (if x = c then i else r)"
      using True by (rule Cons.IH)
    then show ?thesis by simp
  next
    case False
    with Cons.prems show ?thesis by (simp add: rfind_from_notin)
  qed
qed

lemma rfind_from_compare:
  "a \<in> set xs \<Longrightarrow> b \<in> set xs \<Longrightarrow> a \<noteq> b \<Longrightarrow>
     (rfind_from b xs i r2 < rfind_from a xs i r1) = (b \<notin> set (after_last a xs))"
proof (induction xs arbitrary: i r1 r2)
  case Nil
  then show ?case by simp
next
  case (Cons x xs)
  consider (both) "a \<in> set xs" "b \<in> set xs"
    | (onlya) "a \<in> set xs" "b \<notin> set xs"
    | (onlyb) "a \<notin> set xs" "b \<in> set xs"
    | (none) "a \<notin> set xs" "b \<notin> set xs"
    by blast
  then show ?case
  proof cases
    case both
    then show ?thesis using Cons.IH [OF both Cons.prems(3)] by (simp add: after_last_Cons)
  next
    case onlya
    with Cons.prems have xb: "x = b" by auto
    have "i + 1 \<le> rfind_from a xs (i + 1) (if x = a then i else r1)"
      using onlya(1) by (rule rfind_from_lower)
    moreover have "b \<notin> set (after_last a xs)"
      using onlya(2) set_after_last [of a xs] by blast
    ultimately show ?thesis using onlya xb
      by (simp add: after_last_Cons rfind_from_notin)
  next
    case onlyb
    with Cons.prems have xa: "x = a" by auto
    have "i + 1 \<le> rfind_from b xs (i + 1) (if x = b then i else r2)"
      using onlyb(2) by (rule rfind_from_lower)
    then show ?thesis using onlyb xa
      by (simp add: after_last_Cons rfind_from_notin after_last_notin)
  next
    case none
    with Cons.prems show ?thesis by auto
  qed
qed

lemma py_split_notin: "c \<notin> set xs \<Longrightarrow> py_split c xs = [xs]"
  by (induction xs) auto

lemma length_py_split: "length (py_split c s) = Suc (count_list s c)"
  by (induction s) (auto split: list.splits)

lemma py_split_nonempty: "py_split c s \<noteq> []"
  using length_py_split [of c s] by auto

lemma last_py_split: "last (py_split c s) = after_last c s"
proof (induction s)
  case Nil
  then show ?case by (simp add: after_last_def)
next
  case (Cons x xs)
  show ?case
  proof (cases "x = c")
    case True
    then show ?thesis using Cons.IH by (simp add: after_last_Cons py_split_nonempty)
  next
    case False
    show ?thesis
    proof (cases "c \<in> set xs")
      case True
      then have "0 < count_list xs c" using count_list_0_iff [of xs c] by simp
      then have len: "2 \<le> length (py_split c xs)" by (simp add: length_py_split)
      then obtain p q ps where "py_split c xs = p # q # ps"
        by (cases "py_split c xs"; cases "tl (py_split c xs)") auto
      then show ?thesis using Cons.IH False True by (simp add: after_last_Cons)
    next
      case False
      with \<open>x \<noteq> c\<close> show ?thesis by (simp add: py_split_notin after_last_Cons)
    qed
  qed
qed

lemma py_split_second:
  "length (py_split c s) = 2 \<Longrightarrow> py_split c s ! 1 = after_last c s"
proof -
  assume l: "length (py_split c s) = 2"
  then obtain p q where pq: "py_split c s = [p, q]"
    by (cases "py_split c s"; cases "tl (py_split c s)") auto
  have "last (py_split c s) = after_last c s" by (rule last_py_split)
  with pq show ?thesis by simp
qed


lemma py_rfind_compare:
  "a \<in> set s \<Longrightarrow> b \<in> set s \<Longrightarrow> a \<noteq> b \<Longrightarrow>
     (py_rfind s b < py_rfind s a) = (b \<notin> set (after_last a s))"
  unfolding py_rfind_def by (rule rfind_from_compare)

lemma comma_parts:
  "(length (py_split c s) = 2 \<and> length (py_split c s ! 1) \<le> 2) =
     (count_list s c = 1 \<and> length (after_last c s) \<le> 2)"
proof (cases "length (py_split c s) = 2")
  case True
  then show ?thesis using py_split_second [OF True] by (simp add: length_py_split)
next
  case False
  then show ?thesis by (simp add: length_py_split)
qed

text \<open>
  Claim C4, as the code has it. For a non-empty input whose cleaned text is \<open>c\<close>: when
  both separators occur, the kind that occurs last is the decimal separator (a dot after the
  last comma: all commas are deleted; otherwise all dots are deleted and every comma becomes
  a dot); when only commas occur, the comma becomes a dot if there is exactly one comma and
  at most two characters follow it, and otherwise all commas are deleted; with no comma the
  cleaned text is returned as it is.
\<close>

theorem normalize_price_separators:
  assumes "raw \<noteq> []" and "c = clean_price_chars raw"
  shows "price (normalize_price raw cur) =
     (if CHR '','' \<in> set c \<and> CHR ''.'' \<in> set c then
        (if CHR ''.'' \<in> set (after_last (CHR '','') c)
         then filter (\<lambda>x. x \<noteq> CHR '','') c
         else map comma_to_dot (filter (\<lambda>x. x \<noteq> CHR ''.'') c))
      else if CHR '','' \<in> set c then
        (if count_list c (CHR '','') = 1 \<and> length (after_last (CHR '','') c) \<le> 2
         then map comma_to_dot c
         else filter (\<lambda>x. x \<noteq> CHR '','') c)
      else c)"
proof -
  have r1: "py_replace (CHR '','') ''.'' t = map comma_to_dot t" for t
    by (simp add: py_replace_one comma_to_dot_def)
  have r2: "py_replace ch [] t = filter (\<lambda>x. x \<noteq> ch) t" for ch t
    by (rule py_replace_del)
  have cmp: "CHR '','' \<in> set c \<Longrightarrow> CHR ''.'' \<in> set c \<Longrightarrow>
      (py_rfind c (CHR ''.'') < py_rfind c (CHR '','')) = (CHR ''.'' \<notin> set (after_last (CHR '','') c))"
    by (rule py_rfind_compare) simp_all
  show ?thesis
    using assms cmp comma_parts [of "CHR '',''" c]
    by (simp add: normalize_price_def Let_def r1 r2)
qed


lemma count_list_filter:
  "count_list (filter P xs) x = (if P x then count_list xs x else 0)"
  by (induction xs) auto

lemma after_last_filter:
  "P c \<Longrightarrow> after_last c (filter P xs) = filter P (after_last c xs)"
proof (induction xs)
  case Nil
  then show ?case by (simp add: after_last_def)
next
  case (Cons x xs)
  have mem: "c \<in> set (filter P xs) \<longleftrightarrow> c \<in> set xs" using Cons.prems by auto
  show ?case
  proof (cases "P x")
    case True
    then show ?thesis using Cons mem by (simp add: after_last_Cons)
  next
    case False
    with Cons.prems have "x \<noteq> c" by auto
    then show ?thesis
      using False Cons mem by (auto simp: after_last_Cons after_last_notin)
  qed
qed

lemma count_list_replace_one:
  "a \<noteq> b \<Longrightarrow>
     count_list (map (\<lambda>x. if x = a then b else x) xs) b = count_list xs b + count_list xs a"
  by (induction xs) auto

lemma normalize_price_text_cases:
  assumes "dot \<noteq> comma" and "raw \<noteq> []"
    and "c = filter (\<lambda>ch. digit ch \<or> ch = dot \<or> ch = comma) raw"
  shows "normalize_price_text digit dot comma raw =
     (if comma \<in> set c \<and> dot \<in> set c then
        (if dot \<in> set (after_last comma c)
         then filter (\<lambda>x. x \<noteq> comma) c
         else map (\<lambda>x. if x = comma then dot else x) (filter (\<lambda>x. x \<noteq> dot) c))
      else if comma \<in> set c then
        (if count_list c comma = 1 \<and> length (after_last comma c) \<le> 2
         then map (\<lambda>x. if x = comma then dot else x) c
         else filter (\<lambda>x. x \<noteq> comma) c)
      else c)"
proof -
  have cmp: "comma \<in> set c \<Longrightarrow> dot \<in> set c \<Longrightarrow>
      (py_rfind c dot < py_rfind c comma) = (dot \<notin> set (after_last comma c))"
    using assms(1) by (intro py_rfind_compare) simp_all
  show ?thesis
    using assms(2) assms(3) [symmetric] cmp comma_parts [of comma c]
    by (simp add: normalize_price_text_def Let_def py_replace_del py_replace_one)
qed

lemma normalize_price_as_text:
  "price (normalize_price raw cur) = normalize_price_text is_digit (CHR ''.'') (CHR '','') raw"
  by (simp add: normalize_price_def normalize_price_text_def clean_price_chars_def Let_def)

text \<open>
  Claim C1, as the code has it, for text over any alphabet and any digit class (Unicode
  text and the class \<open>\d\<close> among them). The normalized price holds digits and dots only:
  no comma, no blank, no currency symbol. It has at most one dot, with two exceptions that
  the equation states exactly: the input has more than one dot and a dot after its last comma
  (or no comma), or the input has a dot, none after its last comma, and more than one comma.
  The price field of \<open>normalize_price\<close> is this text for the 8-bit alphabet.
\<close>

theorem normalize_price_charset:
  assumes "dot \<noteq> comma"
  shows "(\<forall>ch \<in> set (normalize_price_text digit dot comma x). digit ch \<or> ch = dot) \<and>
         (count_list (normalize_price_text digit dot comma x) dot \<le> 1) =
           (if dot \<in> set (after_last comma x) then count_list x dot \<le> 1
            else dot \<in> set x \<longrightarrow> count_list x comma \<le> 1) \<and>
         price (normalize_price s cur) = normalize_price_text is_digit (CHR ''.'') (CHR '','') s"
proof (cases "x = []")
  case True
  then show ?thesis
    by (simp add: normalize_price_text_def after_last_def normalize_price_as_text)
next
  case False
  define P where "P = (\<lambda>ch. digit ch \<or> ch = dot \<or> ch = comma)"
  define c where "c = filter P x"
  have eq: "normalize_price_text digit dot comma x =
     (if comma \<in> set c \<and> dot \<in> set c then
        (if dot \<in> set (after_last comma c)
         then filter (\<lambda>x. x \<noteq> comma) c
         else map (\<lambda>x. if x = comma then dot else x) (filter (\<lambda>x. x \<noteq> dot) c))
      else if comma \<in> set c then
        (if count_list c comma = 1 \<and> length (after_last comma c) \<le> 2
         then map (\<lambda>x. if x = comma then dot else x) c
         else filter (\<lambda>x. x \<noteq> comma) c)
      else c)"
    using assms False by (rule normalize_price_text_cases) (simp add: c_def P_def)
  have cs: "\<And>ch. ch \<in> set c \<Longrightarrow> digit ch \<or> ch = dot \<or> ch = comma"
    by (simp add: c_def P_def)
  have dots: "count_list c dot = count_list x dot"
    and commas: "count_list c comma = count_list x comma"
    by (simp_all add: c_def P_def count_list_filter)
  have mem: "dot \<in> set c \<longleftrightarrow> dot \<in> set x" "comma \<in> set c \<longleftrightarrow> comma \<in> set x"
    by (auto simp: c_def P_def)
  have "after_last comma c = filter P (after_last comma x)"
    unfolding c_def by (rule after_last_filter) (simp add: P_def)
  then have tail: "dot \<in> set (after_last comma c) \<longleftrightarrow> dot \<in> set (after_last comma x)"
    by (auto simp: P_def)
  have tail_sub: "dot \<in> set (after_last comma x) \<Longrightarrow> dot \<in> set x"
    using set_after_last [of comma x] by blast
  have nocomma: "comma \<notin> set x \<Longrightarrow> after_last comma x = x"
    by (rule after_last_notin)
  have nodot: "dot \<notin> set x \<Longrightarrow> count_list x dot = 0" by simp
  have chars: "\<forall>ch \<in> set (normalize_price_text digit dot comma x). digit ch \<or> ch = dot"
    unfolding eq using cs by auto
  have count: "(count_list (normalize_price_text digit dot comma x) dot \<le> 1) =
           (if dot \<in> set (after_last comma x) then count_list x dot \<le> 1
            else dot \<in> set x \<longrightarrow> count_list x comma \<le> 1)"
  proof (cases "comma \<in> set x")
    case no: False
    then show ?thesis
      using assms nocomma [OF no] nodot
      by (cases "dot \<in> set x") (simp_all add: eq mem dots)
  next
    case yes: True
    show ?thesis
    proof (cases "dot \<in> set x")
      case d: True
      then show ?thesis
        using assms yes
        by (simp add: eq mem tail count_list_filter count_list_replace_one dots commas)
    next
      case nd: False
      then have "dot \<notin> set (after_last comma x)" using tail_sub by blast
      then show ?thesis
        using assms yes nd nodot [OF nd]
        by (simp add: eq mem count_list_replace_one dots count_list_filter)
    qed
  qed
  from chars count show ?thesis by (simp add: normalize_price_as_text)
qed

text \<open>
  Claim C1, witness: the euro sign and \<open>25,99\<close> in Arabic-Indic digits, as code points, and a
  price with two dots before its decimal comma.
\<close>

theorem normalize_price_charset_witness:
  "(46 :: nat) \<noteq> 44 \<and>
   normalize_price_unicode some_decimal_digits [8364, 1634, 1637, 44, 1641, 1641] =
     [1634, 1637, 46, 1641, 1641] \<and>
   CHR ''.'' \<noteq> CHR '','' \<and>
   count_list (price (normalize_price ''1.234.567,89'' ''EUR'')) (CHR ''.'') \<le> 1"
proof -
  have n: "(46 :: nat) \<noteq> 44" by simp
  have c: "CHR ''.'' \<noteq> CHR '',''" by simp
  have u: "normalize_price_unicode some_decimal_digits [8364, 1634, 1637, 44, 1641, 1641] =
     [1634, 1637, 46, 1641, 1641]"
    using normalize_price_charset
      [OF n, of some_decimal_digits "[8364, 1634, 1637, 44, 1641, 1641]" "[]" "[]"]
    by (simp add: normalize_price_unicode_def normalize_price_text_def some_decimal_digits_def
          py_replace_def Let_def)
  have s: "count_list (price (normalize_price ''1.234.567,89'' ''EUR'')) (CHR ''.'') \<le> 1"
    using normalize_price_charset
      [OF c, of is_digit "''1.234.567,89''" "''1.234.567,89''" "''EUR''"]
    by (simp add: after_last_def)
  from n u c s show ?thesis by simp
qed

text \<open>
  Claim C1, counterexample: an input with two dots and no comma passes through unchanged,
  and an input with a dot before two commas loses the dot and gets a dot for each comma. Both
  results have two dots.
\<close>

theorem normalize_price_two_dots:
  "\<not> count_list (price (normalize_price ''1.2.3'' ''EUR'')) (CHR ''.'') \<le> 1 \<and>
   \<not> count_list (price (normalize_price ''1.2,3,4'' ''EUR'')) (CHR ''.'') \<le> 1"
  by (simp add: normalize_price_def clean_price_chars_def is_digit_def py_rfind_def
        py_replace_def Let_def)

text \<open>Claim C4, witness: a price with a dot for the thousands and a comma for the decimals.\<close>

theorem normalize_price_separators_witness:
  "''1.234,56 EUR'' \<noteq> [] \<and> price (normalize_price ''1.234,56 EUR'' ''EUR'') = ''1234.56''"
  using normalize_price_separators [of "''1.234,56 EUR''" "clean_price_chars ''1.234,56 EUR''" "''EUR''"]
  by (simp add: clean_price_chars_def is_digit_def after_last_def comma_to_dot_def)

text \<open>
  Claim C4, counterexample: two commas and no dot. The claim's example says \<open>1234.56\<close>;
  \<open>split\<close> gives three parts, the guard \<open>len(parts) == 2\<close> fails, and both commas are
  deleted.
\<close>

theorem normalize_price_two_commas:
  "price (normalize_price ''1,234,56'' ''EUR'') = ''123456'' \<and>
   price (normalize_price ''1,234,56'' ''EUR'') \<noteq> ''1234.56''"
  by (simp add: normalize_price_def clean_price_chars_def is_digit_def py_replace_def Let_def)

section \<open>Properties of the deduplicator\<close>

lemma loop_acc:
  "remove_duplicates_loop key ps seen unique = unique @ remove_duplicates_loop key ps seen []"
proof (induction ps arbitrary: seen unique)
  case Nil
  then show ?case by simp
next
  case (Cons p ps)
  show ?case
  proof (cases "key p \<in> seen")
    case True
    then show ?thesis using Cons.IH [of seen unique] by simp
  next
    case False
    then show ?thesis
      using Cons.IH [of "insert (key p) seen" "unique @ [p]"]
        Cons.IH [of "insert (key p) seen" "[p]"]
      by simp
  qed
qed

lemma loop_Cons:
  "remove_duplicates_loop key (p # ps) seen [] =
     (if key p \<in> seen then remove_duplicates_loop key ps seen []
      else p # remove_duplicates_loop key ps (insert (key p) seen) [])"
  using loop_acc [of key ps "insert (key p) seen" "[p]"] by simp

lemma loop_keys_fresh:
  "key ` set (remove_duplicates_loop key ps seen []) \<inter> seen = {}"
proof (induction ps arbitrary: seen)
  case Nil
  then show ?case by simp
next
  case (Cons p ps)
  show ?case
    using Cons.IH [of seen] Cons.IH [of "insert (key p) seen"]
    by (auto simp: loop_Cons simp del: remove_duplicates_loop.simps(2))
qed

lemma loop_keys_distinct:
  "distinct (map key (remove_duplicates_loop key ps seen []))"
proof (induction ps arbitrary: seen)
  case Nil
  then show ?case by simp
next
  case (Cons p ps)
  show ?case
    using Cons.IH [of seen] Cons.IH [of "insert (key p) seen"]
      loop_keys_fresh [of key ps "insert (key p) seen"]
    by (auto simp: loop_Cons simp del: remove_duplicates_loop.simps(2))
qed

lemma loop_fixed:
  "distinct (map key ys) \<Longrightarrow> key ` set ys \<inter> seen = {} \<Longrightarrow>
     remove_duplicates_loop key ys seen [] = ys"
proof (induction ys arbitrary: seen)
  case Nil
  then show ?case by simp
next
  case (Cons y ys)
  from Cons.prems have fresh: "key y \<notin> seen" by auto
  from Cons.prems have "distinct (map key ys)" and "key ` set ys \<inter> insert (key y) seen = {}"
    by auto
  then have "remove_duplicates_loop key ys (insert (key y) seen) [] = ys"
    by (rule Cons.IH)
  with fresh show ?case by (simp add: loop_Cons del: remove_duplicates_loop.simps(2))
qed

lemma loop_idem:
  "remove_duplicates_loop key (remove_duplicates_loop key xs {} []) {} [] =
     remove_duplicates_loop key xs {} []"
  by (rule loop_fixed) (simp_all add: loop_keys_distinct)

lemma loop_index:
  "remove_duplicates_loop key ps seen [] =
     map (\<lambda>i. ps ! i)
       (filter (\<lambda>i. key (ps ! i) \<notin> seen \<and> (\<forall>j<i. key (ps ! j) \<noteq> key (ps ! i)))
          [0..<length ps])"
proof (induction ps arbitrary: seen)
  case Nil
  then show ?case by simp
next
  case (Cons p ps)
  let ?P = "\<lambda>s qs i. key (qs ! i) \<notin> s \<and> (\<forall>j<i. key (qs ! j) \<noteq> key (qs ! i))"
  have upt: "[0..<Suc (length ps)] = 0 # map Suc [0..<length ps]"
    by (simp add: upt_conv_Cons map_Suc_upt del: upt_Suc)
  have split: "(\<forall>j<Suc i. key ((p # ps) ! j) \<noteq> k) =
      (key p \<noteq> k \<and> (\<forall>j<i. key (ps ! j) \<noteq> k))" for i k
    by (auto simp: less_Suc_eq_0_disj)
  show ?case
  proof (cases "key p \<in> seen")
    case True
    have "filter (?P seen (p # ps) \<circ> Suc) [0..<length ps] = filter (?P seen ps) [0..<length ps]"
      using True by (intro filter_cong) (auto simp: split)
    then show ?thesis
      using True Cons.IH [of seen]
      by (simp add: loop_Cons upt filter_map comp_def del: upt_Suc remove_duplicates_loop.simps(2))
  next
    case False
    have "filter (?P seen (p # ps) \<circ> Suc) [0..<length ps] =
          filter (?P (insert (key p) seen) ps) [0..<length ps]"
      by (intro filter_cong) (auto simp: split)
    then show ?thesis
      using False Cons.IH [of "insert (key p) seen"]
      by (simp add: loop_Cons upt filter_map comp_def del: upt_Suc remove_duplicates_loop.simps(2))
  qed
qed

text \<open>
  Claim C8. Deduplicating twice gives the same list as deduplicating once, and the result
  lists, in the order of the input, exactly the elements that no earlier element shares a
  key with: each survivor stands at the relative position of its first occurrence.
\<close>

theorem remove_duplicates_idempotent_first:
  "remove_duplicates (remove_duplicates xs) = remove_duplicates xs \<and>
   remove_duplicates xs =
     map (\<lambda>i. xs ! i)
       (filter (\<lambda>i. \<forall>j<i. product_key (xs ! j) \<noteq> product_key (xs ! i)) [0..<length xs])"
proof
  show "remove_duplicates (remove_duplicates xs) = remove_duplicates xs"
    by (simp add: remove_duplicates_def loop_idem)
  show "remove_duplicates xs =
     map (\<lambda>i. xs ! i)
       (filter (\<lambda>i. \<forall>j<i. product_key (xs ! j) \<noteq> product_key (xs ! i)) [0..<length xs])"
    unfolding remove_duplicates_def by (subst loop_index) simp
qed

lemmas char_eval = char_of_def bit_0 bit_Suc_0_iff

text \<open>Claim C8, witness: the third product repeats the first one's URL and name.\<close>

theorem remove_duplicates_idempotent_first_witness:
  "remove_duplicates
     [bare_product ''Product 1'' ''https://example.com/1'' [] [],
      bare_product ''Product 2'' ''https://example.com/2'' [] [],
      bare_product ''Product 1'' ''https://example.com/1'' ''Peinture'' []] =
   [bare_product ''Product 1'' ''https://example.com/1'' [] [],
    bare_product ''Product 2'' ''https://example.com/2'' [] []]"
  using remove_duplicates_idempotent_first
    [of "[bare_product ''Product 1'' ''https://example.com/1'' [] [],
          bare_product ''Product 2'' ''https://example.com/2'' [] [],
          bare_product ''Product 1'' ''https://example.com/1'' ''Peinture'' []]"]
  by (simp add: bare_product_def product_key_def upt_conv_Cons less_Suc_eq_0_disj)

text \<open>
  Claim C5, the code at the failing input. The key is the URL, an underscore and the name in
  one string, so \<open>(".../a_b", "c")\<close> and \<open>(".../a", "b_c")\<close> have the same key although
  both fields differ: the second product is dropped as a duplicate of the first.
\<close>

theorem remove_duplicates_merges_distinct_pairs:
  "remove_duplicates
     [bare_product ''c'' ''https://example.com/a_b'' [] [],
      bare_product ''b_c'' ''https://example.com/a'' [] []] =
   [bare_product ''c'' ''https://example.com/a_b'' [] []] \<and>
   product_url (bare_product ''c'' ''https://example.com/a_b'' [] []) \<noteq>
     product_url (bare_product ''b_c'' ''https://example.com/a'' [] []) \<and>
   product_name (bare_product ''c'' ''https://example.com/a_b'' [] []) \<noteq>
     product_name (bare_product ''b_c'' ''https://example.com/a'' [] [])"
  by (simp add: remove_duplicates_def product_key_def bare_product_def)

section \<open>Properties of the identity resolver\<close>

text \<open>
  Claim C9, as the code has it. The id is the supplier, an underscore and the SKU when the
  SKU is not empty, and otherwise the supplier, an underscore and the first eight characters
  of the digest of the URL; it is a function of the supplier, the URL and the SKU alone. For
  one supplier and one URL, two SKUs give the same id exactly when they are equal or one of
  them is empty and the other is that digest prefix: different non-empty SKUs always give
  different ids.
\<close>

theorem generate_product_id_format_and_collisions:
  "generate_product_id h s u k =
     (if k = [] then s @ ''_'' @ take 8 (h u) else s @ ''_'' @ k) \<and>
   (generate_product_id h s u k1 = generate_product_id h s u k2) =
     (k1 = k2 \<or> (k1 = [] \<and> k2 = take 8 (h u)) \<or> (k2 = [] \<and> k1 = take 8 (h u)))"
  by (auto simp: generate_product_id_def Let_def)

text \<open>
  Claim C9, counterexample: the empty URL, whose MD5 digest starts with \<open>d41d8cd9\<close>. A
  record without SKU and a record whose SKU is \<open>d41d8cd9\<close> get the same id.
\<close>

theorem generate_product_id_sku_equal_to_hash:
  "([] :: string) \<noteq> ''d41d8cd9'' \<and>
   generate_product_id example_md5 ''castorama'' [] [] =
     generate_product_id example_md5 ''castorama'' [] ''d41d8cd9''"
  by (simp add: generate_product_id_def example_md5_def)

section \<open>Properties of the brand normalizer\<close>

text \<open>
  Claim C2, the code at the failing inputs. \<open>normalize_brand\<close> returns the empty string for
  the empty string and \<open>N/A\<close> for \<open>N/A\<close>, and \<open>process_product\<close> stores what
  \<open>normalize_brand\<close> returns: neither produces \<open>Unknown\<close>. Upper-case text is title-cased
  as the claim says.
\<close>

theorem normalize_brand_keeps_empty_and_na:
  "normalize_brand [] = [] \<and> normalize_brand ''N/A'' = ''N/A'' \<and>
   normalize_brand ''BRAND NAME'' = ''Brand Name'' \<and>
   brand (process_product lib dp now r s) = normalize_brand (get_str (raw_brand r) [])"
  by (simp add: normalize_brand_def strip_brand_label_def py_lower_def py_lower_char_def
       py_strip_def is_space_def py_title_def py_upper_char_def is_cased_def Let_def char_eval
       process_product_def)

lemma brand_of_example:
  "brand (process_product example_stdlib example_processor ''2024-01-01T00:00:00'' raw_paint
            ''castorama'') = ''N/A''"
  by (simp add: normalize_brand_def strip_brand_label_def py_lower_def py_lower_char_def
       py_strip_def is_space_def py_title_def py_upper_char_def is_cased_def Let_def char_eval
       process_product_def raw_paint_def get_str_def)

section \<open>Properties of the availability heuristic\<close>

lemma py_contains_sublist: "py_contains needle hay = sublist needle hay"
  by (induction hay) (auto simp: sublist_Cons_right)

lemma disponible_in_indisponible: "sublist ''disponible'' ''indisponible''"
proof -
  have "''indisponible'' = ''in'' @ ''disponible'' @ []" by simp
  then show ?thesis unfolding sublist_def by blast
qed

text \<open>
  Claim C10. When the lower-cased text of name, blank and description contains
  \<open>indisponible\<close>, the result is \<open>in_stock\<close>: the text then contains \<open>disponible\<close>, an
  indicator of the first status that is tried.
\<close>

theorem indisponible_is_in_stock:
  assumes "py_contains ''indisponible''
             (py_lower (get_str (raw_product_name r) [] @ '' '' @ get_str (raw_description r) []))"
  shows "determine_availability r = ''in_stock''"
proof -
  let ?t = "py_lower (get_str (raw_product_name r) [] @ '' '' @ get_str (raw_description r) [])"
  from assms have "sublist ''indisponible'' ?t" by (simp add: py_contains_sublist)
  with disponible_in_indisponible have "sublist ''disponible'' ?t"
    by (rule sublist_order.order_trans)
  then have "py_contains ''disponible'' ?t" by (simp add: py_contains_sublist)
  then show ?thesis
    by (simp add: determine_availability_def availability_indicators_def)
qed

text \<open>Claim C10, witness: a product named \<open>Robinet INDISPONIBLE\<close>.\<close>

theorem indisponible_is_in_stock_witness:
  "py_contains ''indisponible''
     (py_lower (get_str (raw_product_name raw_unavailable) [] @ '' '' @
                get_str (raw_description raw_unavailable) [])) \<and>
   determine_availability raw_unavailable = ''in_stock''"
proof -
  have h: "py_contains ''indisponible''
     (py_lower (get_str (raw_product_name raw_unavailable) [] @ '' '' @
                get_str (raw_description raw_unavailable) []))"
    by (simp add: raw_unavailable_def raw_paint_def get_str_def py_lower_def py_lower_char_def
          char_eval)
  from h indisponible_is_in_stock [OF h] show ?thesis by simp
qed


section \<open>Properties of the query service\<close>

lemma py_slice_page:
  assumes "0 \<le> a" and "0 \<le> b"
  shows "py_slice xs a (a + b) = take (nat b) (drop (nat a) xs)"
proof (cases "nat a \<le> length xs")
  case True
  show ?thesis
  proof (cases "nat a + nat b \<le> length xs")
    case inside: True
    with assms True show ?thesis
      by (simp add: py_slice_def slice_index_def Let_def nat_add_distrib min_def)
  next
    case False
    with assms True have "min (nat (a + b)) (length xs) - nat a = length xs - nat a"
      by (simp add: nat_add_distrib min_def)
    moreover from False have "length (drop (nat a) xs) \<le> nat b" by simp
    ultimately show ?thesis using assms True
      by (simp add: py_slice_def slice_index_def Let_def min_def)
  qed
next
  case False
  with assms show ?thesis
    by (simp add: py_slice_def slice_index_def Let_def min_def)
qed

text \<open>
  Claim C7, as the code has it. For a non-negative offset and limit, the page is what the
  category filter, the supplier filter (when one is given) and the pagination leave, and
  "not found" is reported exactly when that page is empty: for a category that matches
  nothing, and equally when the supplier filter or the offset leaves nothing of a category
  that does match. No empty list is ever returned.
\<close>

theorem category_page_or_not_found:
  assumes "0 \<le> offset" and "0 \<le> limit"
  shows "get_materials_by_category loaded cat sf limit offset =
     (let page = take (nat limit) (drop (nat offset)
                   (filter (\<lambda>p. category p = cat \<and> (truthy sf \<longrightarrow> Some (supplier p) = sf))
                      loaded))
      in if page = [] then Inl (HTTPException 404 (''No products found for category: '' @ cat))
         else Inr page)"
proof -
  have "filter (\<lambda>p. Some (supplier p) = sf) (filter (\<lambda>p. category p = cat) loaded) =
        filter (\<lambda>p. category p = cat \<and> Some (supplier p) = sf) loaded"
    by simp
  then show ?thesis
    using assms by (simp add: get_materials_by_category_def py_slice_page Let_def)
qed

text \<open>Claim C7, witness: the category and the supplier of the only product of the dataset.\<close>

theorem category_page_or_not_found_witness:
  "(0::int) \<le> 0 \<and> (0::int) \<le> 100 \<and>
   get_materials_by_category example_dataset ''Peinture'' (Some ''castorama'') 100 0 =
     Inr example_dataset"
  using category_page_or_not_found [of 0 100 example_dataset "''Peinture''" "Some ''castorama''"]
  by (simp add: example_dataset_def bare_product_def truthy_def)

text \<open>
  Claim C7, counterexample. The category \<open>Peinture\<close> matches the product of the dataset. With a
  supplier that has no product, and with an offset past the end, the route raises the 404
  exception; the claim says an empty list. The sibling route \<open>get_materials\<close> returns the
  empty list for the same filters.
\<close>

theorem matched_category_reports_not_found:
  "category (example_dataset ! 0) = ''Peinture'' \<and>
   get_materials_by_category example_dataset ''Peinture'' (Some ''manomano'') 100 0 =
     Inl (HTTPException 404 ''No products found for category: Peinture'') \<and>
   get_materials_by_category example_dataset ''Peinture'' None 100 5 =
     Inl (HTTPException 404 ''No products found for category: Peinture'') \<and>
   get_materials example_dataset (Some ''manomano'') (Some ''Peinture'') 100 0 = []"
  by (simp add: get_materials_by_category_def get_materials_def example_dataset_def
        bare_product_def truthy_def py_slice_def slice_index_def)

section \<open>Properties of batch processing\<close>

lemma batch_loop_enumerate:
  "batch_loop lib dp clock s i items acc printed =
     (acc @ filter validate_product
              (concat (map (\<lambda>(j, item). case item of
                               Well_Typed r \<Rightarrow> [process_product lib dp (clock j) r s]
                             | Raising n pn e \<Rightarrow> [])
                         (List.enumerate i items))),
      printed @ concat (map (\<lambda>item. case item of
                               Well_Typed r \<Rightarrow> []
                             | Raising n pn e \<Rightarrow> [''Error processing product '' @ pn @ '': '' @ e])
                         items))"
proof (induction items arbitrary: i acc printed)
  case Nil
  then show ?case by simp
next
  case (Cons item items)
  then show ?case by (cases item) (simp_all add: Let_def)
qed

lemma structure_loop_dicts:
  "structure_loop lib dp clock s i (map Dict items) acc errs =
     (Inr (acc @ concat (map (\<lambda>(j, item). case item of
                                Well_Typed r \<Rightarrow> [structure_product lib dp (clock j) r s]
                              | Raising n pn e \<Rightarrow> [])
                          (List.enumerate i items))),
      errs @ concat (map (\<lambda>item. case item of
                            Well_Typed r \<Rightarrow> []
                          | Raising n pn e \<Rightarrow>
                              [\<lparr> error_supplier = s, error_product = Some n, error_text = e \<rparr>])
                      items))"
proof (induction items arbitrary: i acc errs)
  case Nil
  then show ?case by simp
next
  case (Cons item items)
  then show ?case by (cases item) simp_all
qed

lemma validate_product_fields:
  "validate_product p = (product_name p \<noteq> [] \<and> product_url p \<noteq> [] \<and> price p \<noteq> [])"
  by (simp add: validate_product_def)

text \<open>
  Claim C3, as the code has it. \<open>process_products_batch\<close> processes every well-typed
  record of the batch, keeps the processed products whose \<open>product_name\<close>,
  \<open>product_url\<close> and \<open>price\<close> are all non-empty, in order, and removes duplicates when
  configured: a record that misses one of the three is dropped and the rest of the batch is
  processed. The drop is silent. The operation prints a line for a dictionary on which
  processing raises and for nothing else, and it returns no error list; the run's error
  list, which \<open>_process_scraper_output\<close> fills, gets an entry with the supplier, the product
  and the error for a dictionary on which processing raises and for nothing else.
\<close>

theorem batch_drops_invalid_silently:
  "process_products_batch lib dp clock items s =
     ((if remove_duplicates_enabled dp then remove_duplicates else (\<lambda>ps. ps))
        (filter (\<lambda>p. product_name p \<noteq> [] \<and> product_url p \<noteq> [] \<and> price p \<noteq> [])
           (concat (map (\<lambda>(j, item). case item of
                            Well_Typed r \<Rightarrow> [process_product lib dp (clock j) r s]
                          | Raising n pn e \<Rightarrow> [])
                      (List.enumerate 0 items)))),
      concat (map (\<lambda>item. case item of
                     Well_Typed r \<Rightarrow> []
                   | Raising n pn e \<Rightarrow> [''Error processing product '' @ pn @ '': '' @ e])
               items)) \<and>
   errors (snd (process_scraper_output lib dp clock stats (map Dict items) s)) =
     errors stats @
     concat (map (\<lambda>item. case item of
                    Well_Typed r \<Rightarrow> []
                  | Raising n pn e \<Rightarrow>
                      [\<lparr> error_supplier = s, error_product = Some n, error_text = e \<rparr>])
              items)"
proof
  have "validate_product = (\<lambda>p. product_name p \<noteq> [] \<and> product_url p \<noteq> [] \<and> price p \<noteq> [])"
    by (rule ext) (rule validate_product_fields)
  then show "process_products_batch lib dp clock items s =
     ((if remove_duplicates_enabled dp then remove_duplicates else (\<lambda>ps. ps))
        (filter (\<lambda>p. product_name p \<noteq> [] \<and> product_url p \<noteq> [] \<and> price p \<noteq> [])
           (concat (map (\<lambda>(j, item). case item of
                            Well_Typed r \<Rightarrow> [process_product lib dp (clock j) r s]
                          | Raising n pn e \<Rightarrow> [])
                      (List.enumerate 0 items)))),
      concat (map (\<lambda>item. case item of
                     Well_Typed r \<Rightarrow> []
                   | Raising n pn e \<Rightarrow> [''Error processing product '' @ pn @ '': '' @ e])
               items))"
    by (simp add: process_products_batch_def batch_loop_enumerate)
  show "errors (snd (process_scraper_output lib dp clock stats (map Dict items) s)) =
     errors stats @
     concat (map (\<lambda>item. case item of
                    Well_Typed r \<Rightarrow> []
                  | Raising n pn e \<Rightarrow>
                      [\<lparr> error_supplier = s, error_product = Some n, error_text = e \<rparr>])
              items)"
    by (cases "items = []") (simp_all add: process_scraper_output_def structure_loop_dicts)
qed

text \<open>The outer handler: an element without \<open>get\<close> ends the loop, and the entry has no
  product.\<close>

lemma outer_handler_entry:
  "process_scraper_output lib dp clock stats (Dict (Raising n pn e) # Not_A_Dict e' # rest) s =
     ([], stats \<lparr> errors := errors stats @
            [\<lparr> error_supplier = s, error_product = Some n, error_text = e \<rparr>,
             \<lparr> error_supplier = s, error_product = None, error_text = e' \<rparr>] \<rparr>)"
  by (simp add: process_scraper_output_def)

lemma price_of_paint:
  "price (normalize_price ''25,99 EUR'' ''EUR'') = ''25.99''"
  by (simp add: normalize_price_def clean_price_chars_def is_digit_def py_replace_def Let_def)

lemma price_on_request:
  "price (normalize_price ''Sur demande'' ''EUR'') = []"
  by (simp add: normalize_price_def clean_price_chars_def is_digit_def Let_def)

lemma valid_paint:
  "validate_product (process_product example_stdlib example_processor t raw_paint ''castorama'')"
  by (simp add: validate_product_def process_product_def raw_paint_def get_str_def
        example_processor_def price_of_paint Let_def)

lemma invalid_nameless:
  "\<not> validate_product
       (process_product example_stdlib example_processor t raw_nameless ''castorama'')"
  by (simp add: validate_product_def process_product_def raw_nameless_def raw_paint_def
        get_str_def Let_def)

lemma invalid_urlless:
  "\<not> validate_product
       (process_product example_stdlib example_processor t raw_urlless ''castorama'')"
  by (simp add: validate_product_def process_product_def raw_urlless_def raw_paint_def
        get_str_def Let_def)

lemma invalid_priceless:
  "\<not> validate_product
       (process_product example_stdlib example_processor t raw_priceless ''castorama'')"
  by (simp add: validate_product_def process_product_def raw_priceless_def raw_paint_def
        get_str_def example_processor_def price_on_request Let_def)

lemma duplicates_removed_by_default: "remove_duplicates_enabled example_processor"
  by (simp add: example_processor_def)

text \<open>
  Claim C3, counterexample: a batch of a record without product name, a record without URL,
  a record without price and a complete record. The batch operation drops the first three,
  returns the fourth and prints nothing; the run's error list is empty before and after
  structuring the same batch, where the claim says an entry is appended for each.
\<close>

theorem invalid_records_leave_no_error_entry:
  "process_products_batch example_stdlib example_processor example_clock
     [Well_Typed raw_nameless, Well_Typed raw_urlless, Well_Typed raw_priceless,
      Well_Typed raw_paint] ''castorama'' =
     ([process_product example_stdlib example_processor (example_clock 3) raw_paint
         ''castorama''], []) \<and>
   errors (snd (process_scraper_output example_stdlib example_processor example_clock
                  \<lparr> errors = [] \<rparr>
                  [Dict (Well_Typed raw_nameless), Dict (Well_Typed raw_urlless),
                   Dict (Well_Typed raw_priceless), Dict (Well_Typed raw_paint)]
                  ''castorama'')) = []"
  by (simp add: process_products_batch_def Let_def valid_paint invalid_nameless invalid_urlless
        invalid_priceless duplicates_removed_by_default remove_duplicates_def
        process_scraper_output_def example_clock_def)

text \<open>
  Claim C3, witness: a complete record, a dictionary whose brand is a number, and a record
  without product name. Only the dictionary that raises leaves a line and an entry.
\<close>

theorem batch_drops_invalid_silently_witness:
  "process_products_batch example_stdlib example_processor example_clock
     [Well_Typed raw_paint, raw_number_brand, Well_Typed raw_nameless] ''castorama'' =
     ([process_product example_stdlib example_processor (example_clock 0) raw_paint
         ''castorama''],
      [''Error processing product Lavabo: expected string or bytes-like object'']) \<and>
   errors (snd (process_scraper_output example_stdlib example_processor example_clock
                  \<lparr> errors = [] \<rparr>
                  (map Dict [Well_Typed raw_paint, raw_number_brand, Well_Typed raw_nameless])
                  ''castorama'')) =
     [\<lparr> error_supplier = ''castorama'', error_product = Some ''Unknown'',
        error_text = ''expected string or bytes-like object'' \<rparr>]"
  using batch_drops_invalid_silently
    [of example_stdlib example_processor example_clock
        "[Well_Typed raw_paint, raw_number_brand, Well_Typed raw_nameless]"
        "''castorama''" "\<lparr> errors = [] \<rparr>"]
  by (simp add: validate_product_fields [symmetric] valid_paint invalid_nameless
        remove_duplicates_def raw_number_brand_def duplicates_removed_by_default
        example_clock_def)

section \<open>Properties of the session aggregator\<close>

lemma csv_write_raises:
  "fst (csv_write_rows fieldnames ps rows) = (\<not> list_all (row_fits fieldnames) ps)"
proof (induction ps arbitrary: rows)
  case Nil
  then show ?case by simp
next
  case (Cons p ps)
  show ?case
  proof (cases "row_fits fieldnames p")
    case True
    define rows' where
      "rows' = rows @ [map (\<lambda>field. case map_of (csv_row p) field of
                                     None \<Rightarrow> [] | Some v \<Rightarrow> v) fieldnames]"
    obtain r later where e: "csv_write_rows fieldnames ps rows' = (r, later)"
      by (cases "csv_write_rows fieldnames ps rows'")
    with Cons.IH [of rows'] have "r = (\<not> list_all (row_fits fieldnames) ps)" by simp
    with True e show ?thesis by (simp add: Let_def rows'_def [symmetric])
  next
    case False
    then show ?thesis by simp
  qed
qed

text \<open>
  Claim C6, as the code has it. An append of a non-empty batch to a readable session file
  reads the persisted collection, extends the product list with the batch, recomputes
  \<open>total_products\<close> and \<open>last_updated\<close>, and rewrites the whole JSON file in place: when the
  call ends, the file holds the extended collection. That is so whether the call returns
  or raises the exception of its CSV half, which it does exactly when a row of the batch has
  a key that is not a field name. The rewrite is not atomic. The second and the third
  visible state hold an empty and a cut text, which \<open>json.load\<close> rejects, so a crash in
  the middle of the write does not leave the prior file; from the fourth state on the file
  holds the extended collection.
\<close>

theorem append_rewrites_in_place:
  assumes "batch \<noteq> []"
    and "json_files d (session_json_path data_dir scraper_name sid) = Some (Json_Text old)"
  shows
    "let json_filepath = session_json_path data_dir scraper_name sid;
         csv_filepath = session_csv_path data_dir scraper_name sid;
         new = \<lparr> session_metadata =
                   (session_metadata old)
                     \<lparr> total_products := length (session_products old) + length batch,
                       last_updated := Some now \<rparr>,
                 session_products = session_products old @ batch \<rparr>;
         outcome = append_products_to_session data_dir now d scraper_name batch sid;
         states = append_states data_dir now d scraper_name batch sid
     in json_files (disk_after outcome) json_filepath = Some (Json_Text new) \<and>
        raised outcome =
          (if list_all (row_fits (csv_fieldnames batch (csv_files d csv_filepath))) batch
           then None else Some (Failed_To_Append_Csv csv_filepath)) \<and>
        take 4 states =
          [d,
           d \<lparr> json_files := (json_files d)(json_filepath \<mapsto> Empty_Text) \<rparr>,
           d \<lparr> json_files := (json_files d)(json_filepath \<mapsto> Partial_Text new) \<rparr>,
           d \<lparr> json_files := (json_files d)(json_filepath \<mapsto> Json_Text new) \<rparr>] \<and>
        json_load (Some Empty_Text) = None \<and>
        json_load (Some (Partial_Text new)) = None \<and>
        (\<forall>s \<in> set (drop 3 states). json_load (json_files s json_filepath) = Some new)"
proof -
  define jp where "jp = session_json_path data_dir scraper_name sid"
  define cp where "cp = session_csv_path data_dir scraper_name sid"
  define new where "new = extend_session now old batch"
  define written where "written = d \<lparr> json_files := (json_files d)(jp \<mapsto> Json_Text new) \<rparr>"
  define rows where "rows = (case csv_files d cp of None \<Rightarrow> [] | Some rows \<Rightarrow> rows)"
  define later where "later = snd (csv_write_rows (csv_fieldnames batch (csv_files d cp)) batch rows)"
  have new_eq: "new = \<lparr> session_metadata =
                   (session_metadata old)
                     \<lparr> total_products := length (session_products old) + length batch,
                       last_updated := Some now \<rparr>,
                 session_products = session_products old @ batch \<rparr>"
    by (simp add: new_def extend_session_def Let_def)
  have load: "json_load (json_files d jp) = Some old"
    using assms(2) by (simp add: json_load_def jp_def)
  have states: "append_states data_dir now d scraper_name batch sid =
      [d,
       d \<lparr> json_files := (json_files d)(jp \<mapsto> Empty_Text) \<rparr>,
       d \<lparr> json_files := (json_files d)(jp \<mapsto> Partial_Text new) \<rparr>,
       written] @
      map (\<lambda>rows. written \<lparr> csv_files := (csv_files d)(cp \<mapsto> rows) \<rparr>) (rows # later)"
    using assms(1) load
    by (simp add: append_states_def Let_def jp_def [symmetric] cp_def [symmetric]
          new_def [symmetric] written_def [symmetric] rows_def [symmetric] later_def [symmetric])
  have outcome: "append_products_to_session data_dir now d scraper_name batch sid =
      \<lparr> raised = (if fst (csv_write_rows (csv_fieldnames batch (csv_files d cp)) batch rows)
                  then Some (Failed_To_Append_Csv cp) else None),
        disk_after = last (append_states data_dir now d scraper_name batch sid) \<rparr>"
    using assms(1) load
    by (simp add: append_products_to_session_def Let_def jp_def [symmetric] cp_def [symmetric]
          rows_def [symmetric])
  have tail: "\<forall>s \<in> set (drop 3 (append_states data_dir now d scraper_name batch sid)).
      json_files s jp = Some (Json_Text new)"
    unfolding states by (auto simp: written_def)
  have "last (append_states data_dir now d scraper_name batch sid)
          \<in> set (drop 3 (append_states data_dir now d scraper_name batch sid))"
    unfolding states by (simp add: last_map)
  with tail have final: "json_files (last (append_states data_dir now d scraper_name batch sid)) jp =
      Some (Json_Text new)"
    by blast
  have first: "take 4 (append_states data_dir now d scraper_name batch sid) =
      [d,
       d \<lparr> json_files := (json_files d)(jp \<mapsto> Empty_Text) \<rparr>,
       d \<lparr> json_files := (json_files d)(jp \<mapsto> Partial_Text new) \<rparr>,
       written]"
    unfolding states by simp
  show ?thesis
    unfolding Let_def new_eq [symmetric] jp_def [symmetric] cp_def [symmetric]
    using final first tail
    by (simp add: outcome csv_write_raises written_def json_load_def)
qed


text \<open>The flattened key \<open>price_price\<close> of the example product is no field name.\<close>

lemma lavabo_does_not_fit:
  "\<not> row_fits (csv_fieldnames [saved_lavabo] (Some [example_header])) saved_lavabo"
  by (simp add: row_fits_def csv_fieldnames_def csv_row_def saved_lavabo_def example_header_def)

text \<open>
  Claim C6, witness: one product is appended to a session that holds one product. The JSON
  file holds both afterwards, and the call raises the exception of the CSV half.
\<close>

theorem append_rewrites_in_place_witness:
  "[saved_lavabo] \<noteq> [] \<and>
   json_files example_disk example_json_path = Some (Json_Text example_session) \<and>
   json_files
     (disk_after (append_products_to_session ''output/data'' ''2024-01-01T00:05:00''
                    example_disk ''castorama'' [saved_lavabo] ''20240101_000000''))
     example_json_path =
     Some (Json_Text
       \<lparr> session_metadata =
           (session_metadata example_session)
             \<lparr> total_products := 2, last_updated := Some ''2024-01-01T00:05:00'' \<rparr>,
         session_products = [saved_paint, saved_lavabo] \<rparr>) \<and>
   raised (append_products_to_session ''output/data'' ''2024-01-01T00:05:00''
             example_disk ''castorama'' [saved_lavabo] ''20240101_000000'') =
     Some (Failed_To_Append_Csv example_csv_path)"
proof -
  have b: "[saved_lavabo] \<noteq> []" by simp
  have f: "json_files example_disk
             (session_json_path ''output/data'' ''castorama'' ''20240101_000000'') =
           Some (Json_Text example_session)"
    by (simp add: example_disk_def example_json_path_def)
  have c: "csv_files example_disk
             (session_csv_path ''output/data'' ''castorama'' ''20240101_000000'') =
           Some [example_header]"
    by (simp add: example_disk_def example_csv_path_def)
  from append_rewrites_in_place
    [where d = example_disk and data_dir = "''output/data''" and scraper_name = "''castorama''"
       and sid = "''20240101_000000''" and batch = "[saved_lavabo]" and old = example_session
       and now = "''2024-01-01T00:05:00''", OF b f] f
  show ?thesis
    by (simp add: Let_def numeral_2_eq_2 c lavabo_does_not_fit example_json_path_def
          example_csv_path_def example_session_def)
qed

text \<open>
  Claim C6, counterexample. The session file holds a complete collection. If the call stops
  right after \<open>open(json_filepath, 'w')\<close>, the file is empty: the prior collection is gone and
  the file no longer parses.
\<close>

theorem crash_after_truncation_loses_session:
  "json_files example_disk example_json_path = Some (Json_Text example_session) \<and>
   json_files
     (crash_states ''output/data'' ''2024-01-01T00:05:00'' example_disk ''castorama''
        [saved_lavabo] ''20240101_000000'' ! 1) example_json_path = Some Empty_Text \<and>
   json_load (json_files
     (crash_states ''output/data'' ''2024-01-01T00:05:00'' example_disk ''castorama''
        [saved_lavabo] ''20240101_000000'' ! 1) example_json_path) = None"
  by (simp add: crash_states_def append_states_def example_disk_def example_json_path_def
        json_load_def Let_def)

end
